theory Spec2Isabelle
  imports Main
begin

section \<open>The Gitea adapter of go-git-providers\<close>

text \<open>
  The adapter (package \<open>gitea\<close>) wraps the Gitea SDK client: \<open>giteaClientImpl\<close> offers
  one method per REST operation, paginates the list operations with \<open>allPages\<close>,
  validates the objects it hands out and translates HTTP errors with
  \<open>handleHTTPError\<close>. \<open>PullRequestClient\<close> maps the pull-request operations to single
  SDK calls.

  The SDK client \<open>c.c\<close> is an external collaborator. It is a parameter of the model:
  a record of functions, one per SDK method the adapter calls, each taking the state
  \<open>'w\<close> of the world outside (the remote service, the network, a call counter of a test
  double) and returning the Go result tuple with the new state. A call of the transport
  is the only thing that changes \<open>'w\<close>.
\<close>

subsection \<open>Errors\<close>

text \<open>
  Go \<open>error\<close> values. \<open>ErrNotFound\<close> and \<open>ErrDestructiveCallDisallowed\<close> are the sentinels
  of package \<open>gitprovider\<close>; \<open>ErrorString\<close> is an error made elsewhere (by the SDK, by a
  validation function) with its message; \<open>Errorf p e\<close> is
  \<open>fmt.Errorf(p + "%w", e)\<close>, an error that wraps \<open>e\<close> behind the text \<open>p\<close>;
  \<open>ProviderRequestFailed e\<close> is the generic kind of the error translator, wrapping \<open>e\<close>.
\<close>

datatype error =
    ErrNotFound
  | ErrDestructiveCallDisallowed
  | ErrorString string
  | Errorf string error
  | ProviderRequestFailed error

text \<open>\<open>errors.Is\<close>: the target is the error itself or is reached by unwrapping it.\<close>

fun errors_Is :: "error \<Rightarrow> error \<Rightarrow> bool" where
  "errors_Is (Errorf p e) target = (Errorf p e = target \<or> errors_Is e target)"
| "errors_Is (ProviderRequestFailed e) target =
     (ProviderRequestFailed e = target \<or> errors_Is e target)"
| "errors_Is e target = (e = target)"

subsection \<open>Data of the SDK\<close>

text \<open>
  \<open>gitea.ListOptions\<close> is the page cursor; Go's \<open>int\<close> is taken as an unbounded integer
  (a cursor counts pages fetched). \<open>gitea.Response\<close> is the response metadata, of which
  the adapter and the translator read the HTTP status only. A pointer that may be nil is
  an \<open>option\<close>; a slice \<open>[]*T\<close> is a list of objects (its elements are taken to be
  non-nil, as the SDK decodes them from a page of a listing).
\<close>

record ListOptions =
  Page :: int
  PageSize :: int

record Response =
  StatusCode :: int

record Organization =
  org_ID :: int
  org_UserName :: string

record Team =
  team_ID :: int
  team_Name :: string

record User =
  user_ID :: int
  user_UserName :: string

record Repository =
  repo_ID :: int
  repo_Name :: string
  repo_FullName :: string

record DeployKey =
  key_ID :: int
  key_Key :: string
  key_Title :: string
  key_ReadOnly :: bool

record Commit =
  commit_SHA :: string

record CreateRepoOption =
  cro_Name :: string
  cro_Description :: string
  cro_Private :: bool

record EditRepoOption =
  ero_Name :: "string option"
  ero_Description :: "string option"

record CreateKeyOption =
  cko_Title :: string
  cko_Key :: string
  cko_ReadOnly :: bool

record ListCommitOptions =
  lco_ListOptions :: ListOptions
  lco_SHA :: string

record PullRequest =
  pr_Index :: int
  pr_Title :: string

text \<open>
  \<open>gitea.CreatePullRequestOption\<close>: the fields a caller of \<open>Create\<close> could expect to be
  filled from its arguments. The remaining fields of the SDK's struct (assignees,
  milestone, labels, deadline) are never set by the adapter.
\<close>

record CreatePullRequestOption =
  cpo_Head :: string
  cpo_Base :: string
  cpo_Title :: string
  cpo_Body :: string

text \<open>The zero value of \<open>gitea.ListOptions\<close>, as in \<open>opts := gitea.ListOrgsOptions{}\<close>.\<close>

definition zeroListOptions :: ListOptions where
  "zeroListOptions = \<lparr>Page = 0, PageSize = 0\<rparr>"

text \<open>The Go result tuples of the SDK: a page of a listing, one object, no object.\<close>

type_synonym 'a fetched = "'a list \<times> Response option \<times> error option"
type_synonym 'a single = "'a option \<times> Response option \<times> error option"
type_synonym status = "Response option \<times> error option"

subsection \<open>The error translator\<close>

text \<open>
  Modelled from the spec: \<open>handleHTTPError\<close> is not among the source files. Spec 4.1:
  a nil error gives nil; a response that is present and carries status 404 gives the
  sentinel \<open>ErrNotFound\<close>, whatever the error's text; every other non-nil error, also
  with nil response metadata, is wrapped as the generic provider failure.
\<close>

definition handleHTTPError :: "Response option \<Rightarrow> error option \<Rightarrow> error option" where
  "handleHTTPError res err =
     (case err of
        None \<Rightarrow> None
      | Some e \<Rightarrow>
          (case res of
             Some r \<Rightarrow> if StatusCode r = 404 then Some ErrNotFound
                       else Some (ProviderRequestFailed e)
           | None \<Rightarrow> Some (ProviderRequestFailed e)))"

subsection \<open>The SDK client and the adapter's state\<close>

text \<open>
  \<open>*gitea.Client\<close>, the methods the adapter calls. The option structs of the listing
  methods (\<open>ListOrgsOptions\<close>, \<open>ListTeamsOptions\<close>, ...) are built as zero values and
  only their embedded \<open>ListOptions\<close> ever changes, so a listing method takes the
  \<open>ListOptions\<close>.
\<close>

record 'w Client =
  sdk_GetOrg :: "string \<Rightarrow> 'w \<Rightarrow> Organization single \<times> 'w"
  sdk_ListMyOrgs :: "ListOptions \<Rightarrow> 'w \<Rightarrow> Organization fetched \<times> 'w"
  sdk_ListTeamMembers :: "int \<Rightarrow> ListOptions \<Rightarrow> 'w \<Rightarrow> User fetched \<times> 'w"
  sdk_ListOrgTeams :: "string \<Rightarrow> ListOptions \<Rightarrow> 'w \<Rightarrow> Team fetched \<times> 'w"
  sdk_GetRepo :: "string \<Rightarrow> string \<Rightarrow> 'w \<Rightarrow> Repository single \<times> 'w"
  sdk_ListOrgRepos :: "string \<Rightarrow> ListOptions \<Rightarrow> 'w \<Rightarrow> Repository fetched \<times> 'w"
  sdk_ListUserRepos :: "string \<Rightarrow> ListOptions \<Rightarrow> 'w \<Rightarrow> Repository fetched \<times> 'w"
  sdk_CreateOrgRepo :: "string \<Rightarrow> CreateRepoOption \<Rightarrow> 'w \<Rightarrow> Repository single \<times> 'w"
  sdk_CreateRepo :: "CreateRepoOption \<Rightarrow> 'w \<Rightarrow> Repository single \<times> 'w"
  sdk_EditRepo :: "string \<Rightarrow> string \<Rightarrow> EditRepoOption \<Rightarrow> 'w \<Rightarrow> Repository single \<times> 'w"
  sdk_DeleteRepo :: "string \<Rightarrow> string \<Rightarrow> 'w \<Rightarrow> status \<times> 'w"
  sdk_ListDeployKeys :: "string \<Rightarrow> string \<Rightarrow> ListOptions \<Rightarrow> 'w \<Rightarrow> DeployKey fetched \<times> 'w"
  sdk_ListRepoCommits :: "string \<Rightarrow> string \<Rightarrow> ListCommitOptions \<Rightarrow> 'w \<Rightarrow> Commit fetched \<times> 'w"
  sdk_CreateDeployKey :: "string \<Rightarrow> string \<Rightarrow> CreateKeyOption \<Rightarrow> 'w \<Rightarrow> DeployKey single \<times> 'w"
  sdk_DeleteDeployKey :: "string \<Rightarrow> string \<Rightarrow> int \<Rightarrow> 'w \<Rightarrow> status \<times> 'w"
  sdk_AddRepoTeam :: "string \<Rightarrow> string \<Rightarrow> string \<Rightarrow> 'w \<Rightarrow> status \<times> 'w"
  sdk_RemoveRepoTeam :: "string \<Rightarrow> string \<Rightarrow> string \<Rightarrow> 'w \<Rightarrow> status \<times> 'w"
  sdk_ListRepoPullRequests :: "string \<Rightarrow> string \<Rightarrow> ListOptions \<Rightarrow> 'w \<Rightarrow> PullRequest fetched \<times> 'w"
  sdk_CreatePullRequest ::
    "string \<Rightarrow> string \<Rightarrow> CreatePullRequestOption \<Rightarrow> 'w \<Rightarrow> PullRequest single \<times> 'w"

text \<open>
  \<open>giteaClientImpl\<close>: the SDK client (field \<open>c\<close> of the source, here \<open>impl_c\<close>) and the
  flag that allows destructive calls.
\<close>

record 'w giteaClientImpl =
  impl_c :: "'w Client"
  destructiveActions :: bool

definition Client :: "'w giteaClientImpl \<Rightarrow> 'w Client" where
  "Client g = impl_c g"

text \<open>
  The variables a list accessor shares with its page callback and with the driver:
  \<open>opts\<close> (the driver's \<open>listOpts\<close> points into it, so the callback sees the cursor the
  driver advances), the accumulator \<open>apiObjs\<close>, and the world.
\<close>

record ('a, 'w) paging =
  opts :: ListOptions
  apiObjs :: "'a list"
  world :: 'w

subsection \<open>The pagination driver\<close>

text \<open>
  Modelled from the spec: \<open>allPages\<close> is not among the source files. Spec 4.2: the
  cursor starts at page 1; the callback is invoked; an error of the callback is
  translated and returned at once; nil metadata with nil error stops successfully;
  otherwise the page number is incremented and the callback invoked again. There is no
  cap on the number of pages, so the loop need not return: \<open>None\<close> is a run that never
  returns.
\<close>

partial_function (option) allPages_loop ::
  "(('a, 'w) paging \<Rightarrow> status \<times> ('a, 'w) paging) \<Rightarrow> ('a, 'w) paging
     \<Rightarrow> (error option \<times> ('a, 'w) paging) option" where
  "allPages_loop fn s =
     (case fn s of
        ((resp, err), s') \<Rightarrow>
          if err \<noteq> None then Some (handleHTTPError resp err, s')
          else if resp = None then Some (None, s')
          else allPages_loop fn (s'\<lparr>opts := (opts s')\<lparr>Page := Page (opts s') + 1\<rparr>\<rparr>))"

text \<open>
  Modelled from the spec: \<open>allPages\<close> itself, which sets the cursor to page 1 (spec
  4.2, step 1) and runs the loop.
\<close>

definition allPages ::
  "(('a, 'w) paging \<Rightarrow> status \<times> ('a, 'w) paging) \<Rightarrow> ('a, 'w) paging
     \<Rightarrow> (error option \<times> ('a, 'w) paging) option" where
  "allPages fn s = allPages_loop fn (s\<lparr>opts := (opts s)\<lparr>Page := 1\<rparr>\<rparr>)"

subsection \<open>The accessors of \<open>giteaClientImpl\<close>\<close>

text \<open>
  The page callback. The five list accessors pass \<open>allPages\<close> the same closure but for
  the SDK method it calls (\<open>list\<close>, already applied to the accessor's arguments):
  fetch the page at the current \<open>opts\<close>; if it has objects, append them and return the
  SDK's response and error; otherwise return \<open>nil, nil\<close>.
\<close>

definition pageFn ::
  "(ListOptions \<Rightarrow> 'w \<Rightarrow> 'a fetched \<times> 'w) \<Rightarrow> ('a, 'w) paging \<Rightarrow> status \<times> ('a, 'w) paging" where
  "pageFn list s =
     (case list (opts s) (world s) of
        ((pageObjs, resp, listErr), w') \<Rightarrow>
          if length pageObjs > 0
          then ((resp, listErr), s\<lparr>apiObjs := apiObjs s @ pageObjs, world := w'\<rparr>)
          else ((None, None), s\<lparr>world := w'\<rparr>))"

text \<open>
  The validation functions \<open>validateOrganizationAPI\<close>, \<open>validateRepositoryAPI\<close> and
  \<open>validateDeployKeyAPI\<close> are not among the source files; the accessors take them as a
  parameter, a function from the object pointer to an error or nil. \<open>validateEach\<close> is
  the loop \<open>for _, apiObj := range apiObjs\<close> that returns at the first error.
\<close>

fun validateEach :: "('a option \<Rightarrow> error option) \<Rightarrow> 'a list \<Rightarrow> error option" where
  "validateEach validate [] = None"
| "validateEach validate (apiObj # rest) =
     (case validate (Some apiObj) of
        Some e \<Rightarrow> Some e
      | None \<Rightarrow> validateEach validate rest)"

text \<open>An accessor returns a slice (\<open>None\<close> is the nil slice) or an object, and an error.\<close>

type_synonym 'a listed = "'a list option \<times> error option"

definition GetOrg ::
  "(Organization option \<Rightarrow> error option) \<Rightarrow> 'w giteaClientImpl \<Rightarrow> string \<Rightarrow> 'w
     \<Rightarrow> (Organization option \<times> error option) \<times> 'w" where
  "GetOrg validateOrganizationAPI g orgName w =
     (case sdk_GetOrg (impl_c g) orgName w of
        ((apiObj, res, err), w') \<Rightarrow>
          if err \<noteq> None then ((None, handleHTTPError res err), w')
          else (case validateOrganizationAPI apiObj of
                  Some e \<Rightarrow> ((None, Some e), w')
                | None \<Rightarrow> ((apiObj, None), w')))"

definition ListOrgs ::
  "(Organization option \<Rightarrow> error option) \<Rightarrow> 'w giteaClientImpl \<Rightarrow> 'w
     \<Rightarrow> (Organization listed \<times> 'w) option" where
  "ListOrgs validateOrganizationAPI g w =
     (case allPages (pageFn (sdk_ListMyOrgs (impl_c g)))
             \<lparr>opts = zeroListOptions, apiObjs = [], world = w\<rparr> of
        None \<Rightarrow> None
      | Some (err, s) \<Rightarrow>
          if err \<noteq> None then Some ((None, err), world s)
          else (case validateEach validateOrganizationAPI (apiObjs s) of
                  Some e \<Rightarrow> Some ((None, Some e), world s)
                | None \<Rightarrow> Some ((Some (apiObjs s), None), world s)))"

definition ListOrgTeams :: "'w giteaClientImpl \<Rightarrow> string \<Rightarrow> 'w \<Rightarrow> (Team listed \<times> 'w) option" where
  "ListOrgTeams g orgName w =
     (case allPages (pageFn (sdk_ListOrgTeams (impl_c g) orgName))
             \<lparr>opts = zeroListOptions, apiObjs = [], world = w\<rparr> of
        None \<Rightarrow> None
      | Some (err, s) \<Rightarrow>
          if err \<noteq> None then Some ((None, err), world s)
          else Some ((Some (apiObjs s), None), world s))"

text \<open>
  The loop of \<open>ListOrgTeamMembers\<close> over the teams: at the first team of the requested
  name, list its members and return; past the last team, return \<open>ErrNotFound\<close>.
\<close>

fun scanTeams ::
  "'w giteaClientImpl \<Rightarrow> string \<Rightarrow> Team list \<Rightarrow> 'w \<Rightarrow> User listed \<times> 'w" where
  "scanTeams g teamName [] w = ((None, Some ErrNotFound), w)"
| "scanTeams g teamName (team # rest) w =
     (if team_Name team = teamName
      then (case sdk_ListTeamMembers (impl_c g) (team_ID team) zeroListOptions w of
              ((users, _, err), w') \<Rightarrow>
                (case err of
                   Some e \<Rightarrow>
                     ((None,
                       Some (Errorf (''failed to list team '' @ teamName @ '' members: '') e)),
                      w')
                 | None \<Rightarrow> ((Some users, None), w')))
      else scanTeams g teamName rest w)"

text \<open>Ranging over a nil slice runs no iteration.\<close>

definition elems :: "'a list option \<Rightarrow> 'a list" where
  "elems xs = (case xs of None \<Rightarrow> [] | Some ys \<Rightarrow> ys)"

definition ListOrgTeamMembers ::
  "'w giteaClientImpl \<Rightarrow> string \<Rightarrow> string \<Rightarrow> 'w \<Rightarrow> (User listed \<times> 'w) option" where
  "ListOrgTeamMembers g orgName teamName w =
     (case ListOrgTeams g orgName w of
        None \<Rightarrow> None
      | Some ((teams, err), w') \<Rightarrow>
          if err \<noteq> None then Some ((None, err), w')
          else Some (scanTeams g teamName (elems teams) w'))"

definition validateRepositoryAPIResp ::
  "(Repository option \<Rightarrow> error option) \<Rightarrow> Repository option \<Rightarrow> Response option
     \<Rightarrow> error option \<Rightarrow> Repository option \<times> error option" where
  "validateRepositoryAPIResp validateRepositoryAPI apiObj res err =
     (if err \<noteq> None then (None, handleHTTPError res err)
      else (case validateRepositoryAPI apiObj of
              Some e \<Rightarrow> (None, Some e)
            | None \<Rightarrow> (apiObj, None)))"

definition GetRepo ::
  "(Repository option \<Rightarrow> error option) \<Rightarrow> 'w giteaClientImpl \<Rightarrow> string \<Rightarrow> string \<Rightarrow> 'w
     \<Rightarrow> (Repository option \<times> error option) \<times> 'w" where
  "GetRepo validateRepositoryAPI g owner repo w =
     (case sdk_GetRepo (impl_c g) owner repo w of
        ((apiObj, res, err), w') \<Rightarrow>
          (validateRepositoryAPIResp validateRepositoryAPI apiObj res err, w'))"

definition validateRepositoryObjects ::
  "(Repository option \<Rightarrow> error option) \<Rightarrow> Repository list \<Rightarrow> Repository listed" where
  "validateRepositoryObjects validateRepositoryAPI objs =
     (case validateEach validateRepositoryAPI objs of
        Some e \<Rightarrow> (None, Some e)
      | None \<Rightarrow> (Some objs, None))"

definition ListOrgRepos ::
  "(Repository option \<Rightarrow> error option) \<Rightarrow> 'w giteaClientImpl \<Rightarrow> string \<Rightarrow> 'w
     \<Rightarrow> (Repository listed \<times> 'w) option" where
  "ListOrgRepos validateRepositoryAPI g org w =
     (case allPages (pageFn (sdk_ListOrgRepos (impl_c g) org))
             \<lparr>opts = zeroListOptions, apiObjs = [], world = w\<rparr> of
        None \<Rightarrow> None
      | Some (err, s) \<Rightarrow>
          if err \<noteq> None then Some ((None, err), world s)
          else Some (validateRepositoryObjects validateRepositoryAPI (apiObjs s), world s))"

definition ListUserRepos ::
  "(Repository option \<Rightarrow> error option) \<Rightarrow> 'w giteaClientImpl \<Rightarrow> string \<Rightarrow> 'w
     \<Rightarrow> (Repository listed \<times> 'w) option" where
  "ListUserRepos validateRepositoryAPI g username w =
     (case allPages (pageFn (sdk_ListUserRepos (impl_c g) username))
             \<lparr>opts = zeroListOptions, apiObjs = [], world = w\<rparr> of
        None \<Rightarrow> None
      | Some (err, s) \<Rightarrow>
          if err \<noteq> None then Some ((None, err), world s)
          else Some (validateRepositoryObjects validateRepositoryAPI (apiObjs s), world s))"


definition UpdateRepo ::
  "(Repository option \<Rightarrow> error option) \<Rightarrow> 'w giteaClientImpl \<Rightarrow> string \<Rightarrow> string
     \<Rightarrow> EditRepoOption \<Rightarrow> 'w \<Rightarrow> (Repository option \<times> error option) \<times> 'w" where
  "UpdateRepo validateRepositoryAPI g owner repo req w =
     (case sdk_EditRepo (impl_c g) owner repo req w of
        ((apiObj, res, err), w') \<Rightarrow>
          (validateRepositoryAPIResp validateRepositoryAPI apiObj res err, w'))"

definition DeleteRepo ::
  "'w giteaClientImpl \<Rightarrow> string \<Rightarrow> string \<Rightarrow> 'w \<Rightarrow> error option \<times> 'w" where
  "DeleteRepo g owner repo w =
     (if \<not> destructiveActions g
      then (Some (Errorf ''cannot delete repository: '' ErrDestructiveCallDisallowed), w)
      else (case sdk_DeleteRepo (impl_c g) owner repo w of
              ((res, err), w') \<Rightarrow> (handleHTTPError res err, w')))"

definition ListKeys ::
  "(DeployKey option \<Rightarrow> error option) \<Rightarrow> 'w giteaClientImpl \<Rightarrow> string \<Rightarrow> string \<Rightarrow> 'w
     \<Rightarrow> (DeployKey listed \<times> 'w) option" where
  "ListKeys validateDeployKeyAPI g owner repo w =
     (case allPages (pageFn (sdk_ListDeployKeys (impl_c g) owner repo))
             \<lparr>opts = zeroListOptions, apiObjs = [], world = w\<rparr> of
        None \<Rightarrow> None
      | Some (err, s) \<Rightarrow>
          if err \<noteq> None then Some ((None, err), world s)
          else (case validateEach validateDeployKeyAPI (apiObjs s) of
                  Some e \<Rightarrow> Some ((None, Some e), world s)
                | None \<Rightarrow> Some ((Some (apiObjs s), None), world s)))"

definition ListCommitsPage ::
  "'w giteaClientImpl \<Rightarrow> string \<Rightarrow> string \<Rightarrow> string \<Rightarrow> int \<Rightarrow> int \<Rightarrow> 'w
     \<Rightarrow> Commit listed \<times> 'w" where
  "ListCommitsPage g owner repo branch perPage page w =
     (let copts = \<lparr>lco_ListOptions = \<lparr>Page = page, PageSize = perPage\<rparr>, lco_SHA = branch\<rparr>
      in case sdk_ListRepoCommits (impl_c g) owner repo copts w of
           ((objs, _, listErr), w') \<Rightarrow>
             if listErr \<noteq> None then ((None, listErr), w')
             else ((Some objs, None), w'))"

definition CreateKey ::
  "(DeployKey option \<Rightarrow> error option) \<Rightarrow> 'w giteaClientImpl \<Rightarrow> string \<Rightarrow> string \<Rightarrow> DeployKey
     \<Rightarrow> 'w \<Rightarrow> (DeployKey option \<times> error option) \<times> 'w" where
  "CreateKey validateDeployKeyAPI g owner repo req w =
     (let kopts = \<lparr>cko_Title = key_Title req, cko_Key = key_Key req,
                   cko_ReadOnly = key_ReadOnly req\<rparr>
      in case sdk_CreateDeployKey (impl_c g) owner repo kopts w of
           ((apiObj, res, err), w') \<Rightarrow>
             if err \<noteq> None then ((None, handleHTTPError res err), w')
             else (case validateDeployKeyAPI apiObj of
                     Some e \<Rightarrow> ((None, Some e), w')
                   | None \<Rightarrow> ((apiObj, None), w')))"

definition DeleteKey ::
  "'w giteaClientImpl \<Rightarrow> string \<Rightarrow> string \<Rightarrow> int \<Rightarrow> 'w \<Rightarrow> error option \<times> 'w" where
  "DeleteKey g owner repo keyID w =
     (case sdk_DeleteDeployKey (impl_c g) owner repo keyID w of
        ((res, err), w') \<Rightarrow> (handleHTTPError res err, w'))"

text \<open>
  \<open>GetRepoTeams\<close> calls \<open>c.GetRepoTeams\<close>, the method itself, where its siblings call
  the SDK client \<open>c.c\<close>. The recursion has no base case: the value \<open>None\<close> is a call that
  does not return.
\<close>

partial_function (option) GetRepoTeams ::
  "'w giteaClientImpl \<Rightarrow> string \<Rightarrow> string \<Rightarrow> 'w \<Rightarrow> (Team listed \<times> 'w) option" where
  "GetRepoTeams g orgName repo w =
     Option.bind (GetRepoTeams g orgName repo w)
       (\<lambda>((objs, err), w').
          if err \<noteq> None then Some ((None, err), w')
          else Some ((objs, None), w'))"

definition AddTeam ::
  "'w giteaClientImpl \<Rightarrow> string \<Rightarrow> string \<Rightarrow> string \<Rightarrow> 'w \<Rightarrow> error option \<times> 'w" where
  "AddTeam g orgName repo teamName w =
     (case sdk_AddRepoTeam (impl_c g) orgName repo teamName w of
        ((res, err), w') \<Rightarrow> (handleHTTPError res err, w'))"

definition RemoveTeam ::
  "'w giteaClientImpl \<Rightarrow> string \<Rightarrow> string \<Rightarrow> string \<Rightarrow> 'w \<Rightarrow> error option \<times> 'w" where
  "RemoveTeam g orgName repo teamName w =
     (case sdk_RemoveRepoTeam (impl_c g) orgName repo teamName w of
        ((res, err), w') \<Rightarrow> (handleHTTPError res err, w'))"

subsection \<open>The pull-request client\<close>

text \<open>
  \<open>PullRequestClient\<close>: the client of its \<open>clientContext\<close> and the repository reference,
  of which the methods read \<open>GetIdentity()\<close> and \<open>GetRepository()\<close>. The constructor
  \<open>newPullRequest\<close> is not among the source files and is a parameter.
\<close>

record 'w PullRequestClient =
  prc_c :: "'w giteaClientImpl"
  ref_Identity :: string
  ref_Repository :: string

definition PullRequestClient_List ::
  "(PullRequest option \<Rightarrow> 'p) \<Rightarrow> 'w PullRequestClient \<Rightarrow> 'w \<Rightarrow> 'p listed \<times> 'w" where
  "PullRequestClient_List newPullRequest pc w =
     (case sdk_ListRepoPullRequests (Client (prc_c pc)) (ref_Identity pc) (ref_Repository pc)
             zeroListOptions w of
        ((prs, _, err), w') \<Rightarrow>
          if err \<noteq> None then ((None, err), w')
          else ((Some (map (\<lambda>pr. newPullRequest (Some pr)) prs), None), w'))"

text \<open>
  The request \<open>Create\<close> sends: the owner, the repository and the options built from
  the arguments.
\<close>

definition Create_request ::
  "'w PullRequestClient \<Rightarrow> string \<Rightarrow> string \<Rightarrow> string \<Rightarrow> string
     \<Rightarrow> string \<times> string \<times> CreatePullRequestOption" where
  "Create_request pc title branch baseBranch description =
     (let prOpts = \<lparr>cpo_Head = [], cpo_Base = [], cpo_Title = title, cpo_Body = []\<rparr>
      in (ref_Identity pc, ref_Repository pc, prOpts))"

definition PullRequestClient_Create ::
  "(PullRequest option \<Rightarrow> 'p) \<Rightarrow> 'w PullRequestClient \<Rightarrow> string \<Rightarrow> string \<Rightarrow> string
     \<Rightarrow> string \<Rightarrow> 'w \<Rightarrow> ('p option \<times> error option) \<times> 'w" where
  "PullRequestClient_Create newPullRequest pc title branch baseBranch description w =
     (case Create_request pc title branch baseBranch description of
        (owner, repo, prOpts) \<Rightarrow>
          (case sdk_CreatePullRequest (Client (prc_c pc)) owner repo prOpts w of
             ((pr, _, err), w') \<Rightarrow>
               if err \<noteq> None then ((None, err), w')
               else ((Some (newPullRequest pr), None), w')))"

subsection \<open>Page sequences\<close>

text \<open>
  A page, as the spec's data model has it, is the objects of a successful fetch with
  its response metadata: the SDK's result \<open>(objects, response, nil)\<close>. The SDK
  returns a nil response only together with an error.
\<close>

fun okPage :: "'a list \<times> Response \<Rightarrow> 'a fetched" where
  "okPage (xs, r) = (xs, Some r, None)"

text \<open>
  \<open>serves list cur w ps w'\<close>: from the world \<open>w\<close>, successive fetches with the listing
  method \<open>list\<close>, the first at the cursor \<open>cur\<close> and each next one at the following page
  number, return the results \<open>ps\<close> in this order, and the world after the last of them
  is \<open>w'\<close>. The world \<open>w'\<close> is thus the world after exactly \<open>length ps\<close> fetches.
\<close>

fun serves ::
  "(ListOptions \<Rightarrow> 'w \<Rightarrow> 'a fetched \<times> 'w) \<Rightarrow> ListOptions \<Rightarrow> 'w \<Rightarrow> 'a fetched list \<Rightarrow> 'w
     \<Rightarrow> bool" where
  "serves list cur w [] w' = (w' = w)"
| "serves list cur w (p # ps) w' =
     (fst (list cur w) = p \<and>
      serves list (cur\<lparr>Page := Page cur + 1\<rparr>) (snd (list cur w)) ps w')"

subsection \<open>Test doubles\<close>

text \<open>
  Fake transports for the examples. Their world is a counter of the transport calls
  made. \<open>quietClient\<close> answers every call with an empty success; \<open>servePages tbl\<close> is a
  listing method that answers the request for page \<open>k\<close> with the \<open>k\<close>-th entry of the
  table and with an empty page past its end.
\<close>

definition ok200 :: Response where
  "ok200 = \<lparr>StatusCode = 200\<rparr>"

definition internalError :: Response where
  "internalError = \<lparr>StatusCode = 500\<rparr>"

definition notFound :: Response where
  "notFound = \<lparr>StatusCode = 404\<rparr>"

definition servePages :: "'a fetched list \<Rightarrow> ListOptions \<Rightarrow> nat \<Rightarrow> 'a fetched \<times> nat" where
  "servePages tbl cur n =
     ((if 1 \<le> Page cur \<and> nat (Page cur) \<le> length tbl then tbl ! (nat (Page cur) - 1)
       else ([], Some ok200, None)),
      n + 1)"

definition quietClient :: "nat Client" where
  "quietClient =
     \<lparr>sdk_GetOrg = (\<lambda>_ n. ((None, Some ok200, None), n + 1)),
      sdk_ListMyOrgs = (\<lambda>_ n. (([], Some ok200, None), n + 1)),
      sdk_ListTeamMembers = (\<lambda>_ _ n. (([], Some ok200, None), n + 1)),
      sdk_ListOrgTeams = (\<lambda>_ _ n. (([], Some ok200, None), n + 1)),
      sdk_GetRepo = (\<lambda>_ _ n. ((None, Some ok200, None), n + 1)),
      sdk_ListOrgRepos = (\<lambda>_ _ n. (([], Some ok200, None), n + 1)),
      sdk_ListUserRepos = (\<lambda>_ _ n. (([], Some ok200, None), n + 1)),
      sdk_CreateOrgRepo = (\<lambda>_ _ n. ((None, Some ok200, None), n + 1)),
      sdk_CreateRepo = (\<lambda>_ n. ((None, Some ok200, None), n + 1)),
      sdk_EditRepo = (\<lambda>_ _ _ n. ((None, Some ok200, None), n + 1)),
      sdk_DeleteRepo = (\<lambda>_ _ n. ((Some ok200, None), n + 1)),
      sdk_ListDeployKeys = (\<lambda>_ _ _ n. (([], Some ok200, None), n + 1)),
      sdk_ListRepoCommits = (\<lambda>_ _ _ n. (([], Some ok200, None), n + 1)),
      sdk_CreateDeployKey = (\<lambda>_ _ _ n. ((None, Some ok200, None), n + 1)),
      sdk_DeleteDeployKey = (\<lambda>_ _ _ n. ((Some ok200, None), n + 1)),
      sdk_AddRepoTeam = (\<lambda>_ _ _ n. ((Some ok200, None), n + 1)),
      sdk_RemoveRepoTeam = (\<lambda>_ _ _ n. ((Some ok200, None), n + 1)),
      sdk_ListRepoPullRequests = (\<lambda>_ _ _ n. (([], Some ok200, None), n + 1)),
      sdk_CreatePullRequest = (\<lambda>_ _ _ n. ((None, Some ok200, None), n + 1))\<rparr>"

definition org :: "int \<Rightarrow> string \<Rightarrow> Organization" where
  "org i n = \<lparr>org_ID = i, org_UserName = n\<rparr>"

definition teamA :: Team where
  "teamA = \<lparr>team_ID = 1, team_Name = ''A''\<rparr>"

definition teamB :: Team where
  "teamB = \<lparr>team_ID = 2, team_Name = ''B''\<rparr>"


text \<open>
  A validation function for the examples: an organization needs a non-empty name
  (spec 3).
\<close>

definition requireOrgName :: "Organization option \<Rightarrow> error option" where
  "requireOrgName p =
     (case p of
        None \<Rightarrow> Some (ErrorString ''organization is nil'')
      | Some x \<Rightarrow> if org_UserName x = [] then Some (ErrorString ''organization name is empty'')
                  else None)"

text \<open>
  A transport whose listing of organizations has one page with an organization and
  then fails with status 500, returning no objects.
\<close>

definition truncatingClient :: "nat Client" where
  "truncatingClient =
     quietClient\<lparr>sdk_ListMyOrgs :=
       servePages [okPage ([org 1 ''a''], ok200),
                   ([], Some internalError, Some (ErrorString ''500 Internal Server Error''))]\<rparr>"

text \<open>
  A transport of an organization with the teams A and B, whose listing of members
  answers \<open>members\<close> for every team.
\<close>

definition teamsClient :: "User fetched \<Rightarrow> nat Client" where
  "teamsClient members =
     quietClient\<lparr>sdk_ListOrgTeams :=
                   (\<lambda>_. servePages [okPage ([teamA, teamB], ok200), ([], Some ok200, None)]),
                 sdk_ListTeamMembers := (\<lambda>_ _ n. (members, n + 1))\<rparr>"

text \<open>Objects and validation functions for the examples (spec 3: a repository needs
  a name, a deploy key its key material).\<close>

definition repository :: "int \<Rightarrow> string \<Rightarrow> Repository" where
  "repository i n = \<lparr>repo_ID = i, repo_Name = n, repo_FullName = ''acme/'' @ n\<rparr>"

definition deployKey :: "int \<Rightarrow> string \<Rightarrow> string \<Rightarrow> DeployKey" where
  "deployKey i t k = \<lparr>key_ID = i, key_Key = k, key_Title = t, key_ReadOnly = True\<rparr>"

definition requireRepoName :: "Repository option \<Rightarrow> error option" where
  "requireRepoName p =
     (case p of
        None \<Rightarrow> Some (ErrorString ''repository is nil'')
      | Some x \<Rightarrow> if repo_Name x = [] then Some (ErrorString ''repository name is empty'')
                  else None)"

definition requireKeyMaterial :: "DeployKey option \<Rightarrow> error option" where
  "requireKeyMaterial p =
     (case p of
        None \<Rightarrow> Some (ErrorString ''deploy key is nil'')
      | Some x \<Rightarrow> if key_Key x = [] then Some (ErrorString ''deploy key is empty'')
                  else None)"

text \<open>
  A transport whose listings of organizations, repositories and deploy keys have one page
  each, with the given objects.
\<close>

definition listingClient ::
  "Organization list \<Rightarrow> Repository list \<Rightarrow> DeployKey list \<Rightarrow> nat Client" where
  "listingClient orgs repos keys =
     quietClient\<lparr>sdk_ListMyOrgs := servePages [okPage (orgs, ok200)],
                 sdk_ListOrgRepos := (\<lambda>_. servePages [okPage (repos, ok200)]),
                 sdk_ListUserRepos := (\<lambda>_. servePages [okPage (repos, ok200)]),
                 sdk_ListDeployKeys := (\<lambda>_ _. servePages [okPage (keys, ok200)])\<rparr>"


text \<open>
  A transport of an organization with the teams A and B whose listings of team members,
  of commits and of pull requests answer with status 404 and an error.
\<close>

definition notFoundClient :: "nat Client" where
  "notFoundClient =
     (teamsClient ([], Some notFound, Some (ErrorString ''404 Not Found'')))
       \<lparr>sdk_ListRepoCommits :=
          (\<lambda>_ _ _ n. (([], Some notFound, Some (ErrorString ''404 Not Found'')), n + 1)),
        sdk_ListRepoPullRequests :=
          (\<lambda>_ _ _ n. (([], Some notFound, Some (ErrorString ''404 Not Found'')), n + 1))\<rparr>"

section \<open>Properties\<close>

subsection \<open>The pagination driver on a page sequence\<close>

text \<open>
  The loop on a sequence of non-empty pages that ends with a fetch without objects:
  it returns after that fetch, successfully, with the pages appended to the
  accumulator. The response and the error of the fetch without objects play no role:
  the callback answers \<open>nil, nil\<close> for it.
\<close>

lemma allPages_loop_serves:
  "serves list (opts s) (world s) (map okPage pages @ [([], r, e)]) w' \<Longrightarrow>
   \<forall>p\<in>set pages. fst p \<noteq> [] \<Longrightarrow>
   allPages_loop (pageFn list) s =
     Some (None, s\<lparr>opts := (opts s)\<lparr>Page := Page (opts s) + int (length pages)\<rparr>,
                   apiObjs := apiObjs s @ concat (map fst pages), world := w'\<rparr>)"
proof (induction pages arbitrary: s)
  case Nil
  then show ?case
    by (subst allPages_loop.simps) (auto simp: pageFn_def split: prod.splits)
next
  case (Cons p pages)
  obtain xs rp where p: "p = (xs, rp)" by (cases p)
  obtain res1 w1 where lw: "list (opts s) (world s) = (res1, w1)"
    by (cases "list (opts s) (world s)")
  from Cons.prems p lw have fetch: "list (opts s) (world s) = ((xs, Some rp, None), w1)"
    and xs: "xs \<noteq> []"
    and rest: "serves list ((opts s)\<lparr>Page := Page (opts s) + 1\<rparr>) w1
                 (map okPage pages @ [([], r, e)]) w'"
    by auto
  let ?s1 = "s\<lparr>apiObjs := apiObjs s @ xs, world := w1,
               opts := (opts s)\<lparr>Page := Page (opts s) + 1\<rparr>\<rparr>"
  have step: "allPages_loop (pageFn list) s = allPages_loop (pageFn list) ?s1"
    using xs by (subst allPages_loop.simps) (simp add: pageFn_def fetch)
  have "serves list (opts ?s1) (world ?s1) (map okPage pages @ [([], r, e)]) w'"
    using rest by simp
  moreover have "\<forall>p\<in>set pages. fst p \<noteq> []" using Cons.prems by simp
  ultimately have "allPages_loop (pageFn list) ?s1 =
     Some (None, ?s1\<lparr>opts := (opts ?s1)\<lparr>Page := Page (opts ?s1) + int (length pages)\<rparr>,
                   apiObjs := apiObjs ?s1 @ concat (map fst pages), world := w'\<rparr>)"
    by (rule Cons.IH)
  with step show ?case by (simp add: p)
qed

lemma allPages_serves:
  assumes "serves list (zeroListOptions\<lparr>Page := 1\<rparr>) w (map okPage pages @ [([], r, e)]) w'"
    and "\<forall>p\<in>set pages. fst p \<noteq> []"
  shows "allPages (pageFn list) \<lparr>opts = zeroListOptions, apiObjs = [], world = w\<rparr> =
     Some (None, \<lparr>opts = zeroListOptions\<lparr>Page := 1 + int (length pages)\<rparr>,
                  apiObjs = concat (map fst pages), world = w'\<rparr>)"
  unfolding allPages_def
  by (subst allPages_loop_serves [where pages = pages and r = r and e = e and w' = w'])
     (use assms in simp_all)

text \<open>
  The loop on a sequence of non-empty pages that ends with a fetch returning objects
  and an error: it returns after that fetch with the translated error.
\<close>

lemma allPages_loop_error:
  "serves list (opts s) (world s) (map okPage pages @ [(xs, r, Some e)]) w' \<Longrightarrow>
   \<forall>p\<in>set pages. fst p \<noteq> [] \<Longrightarrow> xs \<noteq> [] \<Longrightarrow>
   allPages_loop (pageFn list) s =
     Some (handleHTTPError r (Some e),
           s\<lparr>opts := (opts s)\<lparr>Page := Page (opts s) + int (length pages)\<rparr>,
             apiObjs := apiObjs s @ concat (map fst pages) @ xs, world := w'\<rparr>)"
proof (induction pages arbitrary: s)
  case Nil
  then show ?case
    by (subst allPages_loop.simps) (auto simp: pageFn_def split: prod.splits)
next
  case (Cons p pages)
  obtain ys rp where p: "p = (ys, rp)" by (cases p)
  obtain res1 w1 where lw: "list (opts s) (world s) = (res1, w1)"
    by (cases "list (opts s) (world s)")
  from Cons.prems p lw have fetch: "list (opts s) (world s) = ((ys, Some rp, None), w1)"
    and ys: "ys \<noteq> []"
    and rest: "serves list ((opts s)\<lparr>Page := Page (opts s) + 1\<rparr>) w1
                 (map okPage pages @ [(xs, r, Some e)]) w'"
    by auto
  let ?s1 = "s\<lparr>apiObjs := apiObjs s @ ys, world := w1,
               opts := (opts s)\<lparr>Page := Page (opts s) + 1\<rparr>\<rparr>"
  have step: "allPages_loop (pageFn list) s = allPages_loop (pageFn list) ?s1"
    using ys by (subst allPages_loop.simps) (simp add: pageFn_def fetch)
  have "serves list (opts ?s1) (world ?s1) (map okPage pages @ [(xs, r, Some e)]) w'"
    using rest by simp
  moreover have "\<forall>p\<in>set pages. fst p \<noteq> []" using Cons.prems by simp
  ultimately have "allPages_loop (pageFn list) ?s1 =
     Some (handleHTTPError r (Some e),
           ?s1\<lparr>opts := (opts ?s1)\<lparr>Page := Page (opts ?s1) + int (length pages)\<rparr>,
               apiObjs := apiObjs ?s1 @ concat (map fst pages) @ xs, world := w'\<rparr>)"
    using Cons.prems(3) by (rule Cons.IH)
  with step show ?case by (simp add: p)
qed

text \<open>
  So an accessor without validation, \<open>ListOrgTeams\<close>, returns the concatenation of the
  pages in the first case and the translated error in the second.
\<close>

lemma ListOrgTeams_error_with_objects:
  assumes "serves (sdk_ListOrgTeams (impl_c g) orgName) (zeroListOptions\<lparr>Page := 1\<rparr>) w
             (map okPage pages @ [(xs, r, Some e)]) w'"
    and "\<forall>p\<in>set pages. fst p \<noteq> []" and "xs \<noteq> []"
  shows "ListOrgTeams g orgName w = Some ((None, handleHTTPError r (Some e)), w')"
proof -
  have "allPages (pageFn (sdk_ListOrgTeams (impl_c g) orgName))
          \<lparr>opts = zeroListOptions, apiObjs = [], world = w\<rparr> =
        Some (handleHTTPError r (Some e),
              \<lparr>opts = zeroListOptions\<lparr>Page := 1 + int (length pages)\<rparr>,
               apiObjs = concat (map fst pages) @ xs, world = w'\<rparr>)"
    unfolding allPages_def
    by (subst allPages_loop_error [where pages = pages and r = r and e = e and w' = w' and xs = xs])
       (use assms in simp_all)
  moreover have "handleHTTPError r (Some e) \<noteq> None"
    by (simp add: handleHTTPError_def split: option.splits)
  ultimately show ?thesis by (simp add: ListOrgTeams_def)
qed

lemma ListOrgTeams_collects:
  assumes "serves (sdk_ListOrgTeams (impl_c g) orgName) (zeroListOptions\<lparr>Page := 1\<rparr>) w
             (map okPage pages @ [([], r, e)]) w'"
    and "\<forall>p\<in>set pages. fst p \<noteq> []"
  shows "ListOrgTeams g orgName w = Some ((Some (concat (map fst pages)), None), w')"
  by (simp add: ListOrgTeams_def allPages_serves [OF assms])

text \<open>The listings of the test doubles, through the driver.\<close>

lemma allPages_one_page:
  "xs \<noteq> [] \<Longrightarrow>
   allPages (pageFn (servePages [(xs, Some ok200, None)]))
     \<lparr>opts = zeroListOptions, apiObjs = [], world = n\<rparr> =
   Some (None, \<lparr>opts = \<lparr>Page = 2, PageSize = 0\<rparr>, apiObjs = xs, world = n + 2\<rparr>)"
  using allPages_serves [of "servePages [(xs, Some ok200, None)]" n "[(xs, ok200)]" "Some ok200" None "n + 2"]
  by (simp add: servePages_def zeroListOptions_def)

lemma allPages_teams:
  "allPages (pageFn (servePages [([teamA, teamB], Some ok200, None), ([], Some ok200, None)]))
     \<lparr>opts = zeroListOptions, apiObjs = [], world = n\<rparr> =
   Some (None, \<lparr>opts = \<lparr>Page = 2, PageSize = 0\<rparr>, apiObjs = [teamA, teamB], world = n + 2\<rparr>)"
  using allPages_serves [of "servePages [([teamA, teamB], Some ok200, None), ([], Some ok200, None)]"
      n "[([teamA, teamB], ok200)]" "Some ok200" None "n + 2"]
  by (simp add: servePages_def zeroListOptions_def)



lemma notFoundClient_calls:
  "sdk_ListTeamMembers notFoundClient i cur n =
     (([], Some notFound, Some (ErrorString ''404 Not Found'')), n + 1)"
  "sdk_ListRepoCommits notFoundClient owner repo copts n =
     (([], Some notFound, Some (ErrorString ''404 Not Found'')), n + 1)"
  "sdk_ListRepoPullRequests notFoundClient owner repo cur n =
     (([], Some notFound, Some (ErrorString ''404 Not Found'')), n + 1)"
  by (simp_all add: notFoundClient_def teamsClient_def)

lemma ListOrgTeams_notFoundClient:
  "ListOrgTeams \<lparr>impl_c = notFoundClient, destructiveActions = d\<rparr> orgName n =
     Some ((Some [teamA, teamB], None), n + 2)"
  by (simp add: ListOrgTeams_def notFoundClient_def teamsClient_def allPages_teams)

lemma truncating_serves:
  "serves (sdk_ListMyOrgs truncatingClient) (zeroListOptions\<lparr>Page := 1\<rparr>) 0
     (map okPage [([org 1 ''a''], ok200)] @
      [([], Some internalError, Some (ErrorString ''500 Internal Server Error''))]) 2"
  by (simp add: truncatingClient_def servePages_def zeroListOptions_def)

lemma serves_three_pages:
  "serves (servePages [okPage ([org 1 ''a'', org 2 ''b''], ok200), okPage ([org 3 ''c''], ok200),
                       ([], Some ok200, None)])
     (zeroListOptions\<lparr>Page := 1\<rparr>) 0
     (map okPage [([org 1 ''a'', org 2 ''b''], ok200), ([org 3 ''c''], ok200)] @
      [([], Some ok200, None)]) 3"
  by (simp add: servePages_def zeroListOptions_def)

lemma listingClient_pages:
  "orgs \<noteq> [] \<Longrightarrow>
   allPages (pageFn (sdk_ListMyOrgs (listingClient orgs repos keys)))
     \<lparr>opts = zeroListOptions, apiObjs = [], world = n\<rparr> =
   Some (None, \<lparr>opts = \<lparr>Page = 2, PageSize = 0\<rparr>, apiObjs = orgs, world = n + 2\<rparr>)"
  "repos \<noteq> [] \<Longrightarrow>
   allPages (pageFn (sdk_ListOrgRepos (listingClient orgs repos keys) orgName))
     \<lparr>opts = zeroListOptions, apiObjs = [], world = n\<rparr> =
   Some (None, \<lparr>opts = \<lparr>Page = 2, PageSize = 0\<rparr>, apiObjs = repos, world = n + 2\<rparr>)"
  "repos \<noteq> [] \<Longrightarrow>
   allPages (pageFn (sdk_ListUserRepos (listingClient orgs repos keys) username))
     \<lparr>opts = zeroListOptions, apiObjs = [], world = n\<rparr> =
   Some (None, \<lparr>opts = \<lparr>Page = 2, PageSize = 0\<rparr>, apiObjs = repos, world = n + 2\<rparr>)"
  "keys \<noteq> [] \<Longrightarrow>
   allPages (pageFn (sdk_ListDeployKeys (listingClient orgs repos keys) owner repo))
     \<lparr>opts = zeroListOptions, apiObjs = [], world = n\<rparr> =
   Some (None, \<lparr>opts = \<lparr>Page = 2, PageSize = 0\<rparr>, apiObjs = keys, world = n + 2\<rparr>)"
  by (simp_all add: listingClient_def allPages_one_page)

subsection \<open>The claims\<close>

text \<open>
  C1. For every finite sequence of pages in which every page except the last is
  non-empty, the last page is empty and no fetch returns an error, the pagination
  driver, invoked as every list accessor invokes it (on the accessor's page callback,
  with zero-valued options and an empty accumulator), returns, without error, and the
  accumulator is the concatenation of the non-empty pages in fetch order. The world is
  the one after the fetches of the sequence and the cursor is at its last page.
\<close>

theorem allPages_collects:
  assumes "serves list (zeroListOptions\<lparr>Page := 1\<rparr>) w (map okPage pages @ [([], r, None)]) w'"
    and "\<forall>p\<in>set pages. fst p \<noteq> []"
  shows "allPages (pageFn list) \<lparr>opts = zeroListOptions, apiObjs = [], world = w\<rparr> =
     Some (None, \<lparr>opts = zeroListOptions\<lparr>Page := 1 + int (length pages)\<rparr>,
                  apiObjs = concat (map fst pages), world = w'\<rparr>)"
  using assms by (rule allPages_serves)

theorem allPages_collects_witness:
  "serves (servePages [okPage ([org 1 ''a'', org 2 ''b''], ok200), okPage ([org 3 ''c''], ok200),
                       ([], Some ok200, None)])
     (zeroListOptions\<lparr>Page := 1\<rparr>) 0
     (map okPage [([org 1 ''a'', org 2 ''b''], ok200), ([org 3 ''c''], ok200)] @
      [([], Some ok200, None)]) 3 \<and>
   allPages (pageFn (servePages [okPage ([org 1 ''a'', org 2 ''b''], ok200),
                                 okPage ([org 3 ''c''], ok200), ([], Some ok200, None)]))
      \<lparr>opts = zeroListOptions, apiObjs = [], world = 0\<rparr> =
     Some (None, \<lparr>opts = \<lparr>Page = 3, PageSize = 0\<rparr>,
                  apiObjs = [org 1 ''a'', org 2 ''b'', org 3 ''c''], world = 3\<rparr>)"
proof -
  have h2: "\<forall>p\<in>set [([org 1 ''a'', org 2 ''b''], ok200), ([org 3 ''c''], ok200)]. fst p \<noteq> []"
    by simp
  show ?thesis
    using serves_three_pages h2 allPages_collects [OF serves_three_pages h2]
    by (simp add: zeroListOptions_def)
qed

text \<open>
  C2. The claim: when the Nth fetch returns a non-nil error, the driver stops after
  fetch N and the caller receives the translated error; no error is suppressed. The
  code at a failing input: the second fetch of \<open>truncatingClient\<close> returns no objects,
  status 500 and an error; the page callback answers \<open>nil, nil\<close> for a fetch without
  objects, and \<open>ListOrgs\<close> returns the organizations of the first page with a nil error,
  after two fetches.
\<close>

theorem ListOrgs_drops_error:
  "fst (sdk_ListMyOrgs truncatingClient \<lparr>Page = 2, PageSize = 0\<rparr> 1) =
     ([], Some internalError, Some (ErrorString ''500 Internal Server Error'')) \<and>
   fst (pageFn (sdk_ListMyOrgs truncatingClient)
          \<lparr>opts = \<lparr>Page = 2, PageSize = 0\<rparr>, apiObjs = [org 1 ''a''], world = 1\<rparr>) =
     (None, None) \<and>
   ListOrgs requireOrgName \<lparr>impl_c = truncatingClient, destructiveActions = False\<rparr> 0 =
     Some ((Some [org 1 ''a''], None), 2)"
proof -
  have "allPages (pageFn (sdk_ListMyOrgs truncatingClient))
          \<lparr>opts = zeroListOptions, apiObjs = [], world = 0\<rparr> =
        Some (None, \<lparr>opts = zeroListOptions\<lparr>Page := 1 + int (length [([org 1 ''a''], ok200)])\<rparr>,
                     apiObjs = concat (map fst [([org 1 ''a''], ok200)]), world = 2\<rparr>)"
    by (rule allPages_serves [OF truncating_serves]) simp
  then show ?thesis
    by (simp add: ListOrgs_def requireOrgName_def org_def truncatingClient_def servePages_def
          pageFn_def)
qed

text \<open>
  C3. For every response-metadata object whose HTTP status is 404 and every non-nil
  underlying error, \<open>handleHTTPError\<close> returns the sentinel \<open>ErrNotFound\<close>, whatever
  the text of the underlying error.
\<close>

theorem handleHTTPError_404:
  "StatusCode r = 404 \<Longrightarrow> handleHTTPError (Some r) (Some e) = Some ErrNotFound"
  by (simp add: handleHTTPError_def)

theorem handleHTTPError_404_witness:
  "StatusCode \<lparr>StatusCode = 404\<rparr> = 404 \<and>
   handleHTTPError (Some \<lparr>StatusCode = 404\<rparr>) (Some (ErrorString ''boom'')) = Some ErrNotFound"
  using handleHTTPError_404 [of "\<lparr>StatusCode = 404\<rparr>" "ErrorString ''boom''"] by simp

text \<open>The validation loop returns the error of the first invalid object.\<close>

lemma validateEach_first_invalid:
  "find (\<lambda>x. validate (Some x) \<noteq> None) xs = Some bad \<Longrightarrow>
   validateEach validate xs = validate (Some bad) \<and> validate (Some bad) \<noteq> None"
  by (induction xs) (auto split: if_splits)

lemma validateEach_all_valid:
  "validateEach validate xs = None \<Longrightarrow> x \<in> set xs \<Longrightarrow> validate (Some x) = None"
  by (induction xs) (auto split: option.splits)

lemma ListOrgs_invalid:
  assumes "allPages (pageFn (sdk_ListMyOrgs (impl_c g)))
             \<lparr>opts = zeroListOptions, apiObjs = [], world = w\<rparr> = Some (None, s)"
    and "find (\<lambda>x. v (Some x) \<noteq> None) (apiObjs s) = Some bad"
  shows "v (Some bad) \<noteq> None \<and> ListOrgs v g w = Some ((None, v (Some bad)), world s)"
  using assms(1) validateEach_first_invalid [OF assms(2)]
  by (auto simp: ListOrgs_def)

lemma ListOrgs_returned_valid:
  "ListOrgs v g w = Some ((Some objs, err), w') \<Longrightarrow> \<forall>x\<in>set objs. v (Some x) = None"
  by (auto simp: ListOrgs_def split: option.splits if_splits dest: validateEach_all_valid)

lemma validateRepositoryObjects_invalid:
  "find (\<lambda>x. v (Some x) \<noteq> None) objs = Some bad \<Longrightarrow>
   v (Some bad) \<noteq> None \<and> validateRepositoryObjects v objs = (None, v (Some bad))"
  using validateEach_first_invalid [of v objs bad]
  by (auto simp: validateRepositoryObjects_def)

lemma validateRepositoryObjects_returned_valid:
  "validateRepositoryObjects v xs = (Some objs, err) \<Longrightarrow> x \<in> set objs \<Longrightarrow> v (Some x) = None"
  by (auto simp: validateRepositoryObjects_def split: option.splits dest: validateEach_all_valid)

lemma ListOrgRepos_invalid:
  assumes "allPages (pageFn (sdk_ListOrgRepos (impl_c g) org'))
             \<lparr>opts = zeroListOptions, apiObjs = [], world = w\<rparr> = Some (None, s)"
    and "find (\<lambda>x. v (Some x) \<noteq> None) (apiObjs s) = Some bad"
  shows "v (Some bad) \<noteq> None \<and> ListOrgRepos v g org' w = Some ((None, v (Some bad)), world s)"
  using assms(1) validateRepositoryObjects_invalid [OF assms(2)]
  by (auto simp: ListOrgRepos_def)

lemma ListOrgRepos_returned_valid:
  "ListOrgRepos v g org' w = Some ((Some objs, err), w') \<Longrightarrow> \<forall>x\<in>set objs. v (Some x) = None"
  by (auto simp: ListOrgRepos_def split: option.splits if_splits
           dest: validateRepositoryObjects_returned_valid)

lemma ListUserRepos_invalid:
  assumes "allPages (pageFn (sdk_ListUserRepos (impl_c g) username))
             \<lparr>opts = zeroListOptions, apiObjs = [], world = w\<rparr> = Some (None, s)"
    and "find (\<lambda>x. v (Some x) \<noteq> None) (apiObjs s) = Some bad"
  shows "v (Some bad) \<noteq> None \<and> ListUserRepos v g username w = Some ((None, v (Some bad)), world s)"
  using assms(1) validateRepositoryObjects_invalid [OF assms(2)]
  by (auto simp: ListUserRepos_def)

lemma ListUserRepos_returned_valid:
  "ListUserRepos v g username w = Some ((Some objs, err), w') \<Longrightarrow>
   \<forall>x\<in>set objs. v (Some x) = None"
  by (auto simp: ListUserRepos_def split: option.splits if_splits
           dest: validateRepositoryObjects_returned_valid)

lemma ListKeys_invalid:
  assumes "allPages (pageFn (sdk_ListDeployKeys (impl_c g) owner repo))
             \<lparr>opts = zeroListOptions, apiObjs = [], world = w\<rparr> = Some (None, s)"
    and "find (\<lambda>x. v (Some x) \<noteq> None) (apiObjs s) = Some bad"
  shows "v (Some bad) \<noteq> None \<and> ListKeys v g owner repo w = Some ((None, v (Some bad)), world s)"
  using assms(1) validateEach_first_invalid [OF assms(2)]
  by (auto simp: ListKeys_def)

lemma ListKeys_returned_valid:
  "ListKeys v g owner repo w = Some ((Some objs, err), w') \<Longrightarrow> \<forall>x\<in>set objs. v (Some x) = None"
  by (auto simp: ListKeys_def split: option.splits if_splits dest: validateEach_all_valid)

text \<open>
  C4. For each list accessor over a validated kind of object (\<open>ListOrgs\<close>,
  \<open>ListOrgRepos\<close>, \<open>ListUserRepos\<close>, \<open>ListKeys\<close>): when the pagination has succeeded and
  the accumulated list holds an object that fails validation, the call returns the nil
  slice with the validation error of the first such object, whatever the other objects
  are; and whenever the call returns a list, every object of it passes validation.
\<close>

theorem list_validation_atomic:
  "(allPages (pageFn (sdk_ListMyOrgs (impl_c g)))
      \<lparr>opts = zeroListOptions, apiObjs = [], world = w\<rparr> = Some (None, so) \<and>
    find (\<lambda>x. vo (Some x) \<noteq> None) (apiObjs so) = Some bo \<longrightarrow>
      vo (Some bo) \<noteq> None \<and> ListOrgs vo g w = Some ((None, vo (Some bo)), world so)) \<and>
   (allPages (pageFn (sdk_ListOrgRepos (impl_c g) orgName))
      \<lparr>opts = zeroListOptions, apiObjs = [], world = w\<rparr> = Some (None, sr) \<and>
    find (\<lambda>x. vr (Some x) \<noteq> None) (apiObjs sr) = Some br \<longrightarrow>
      vr (Some br) \<noteq> None \<and>
      ListOrgRepos vr g orgName w = Some ((None, vr (Some br)), world sr)) \<and>
   (allPages (pageFn (sdk_ListUserRepos (impl_c g) username))
      \<lparr>opts = zeroListOptions, apiObjs = [], world = w\<rparr> = Some (None, su) \<and>
    find (\<lambda>x. vr (Some x) \<noteq> None) (apiObjs su) = Some bu \<longrightarrow>
      vr (Some bu) \<noteq> None \<and>
      ListUserRepos vr g username w = Some ((None, vr (Some bu)), world su)) \<and>
   (allPages (pageFn (sdk_ListDeployKeys (impl_c g) owner repo))
      \<lparr>opts = zeroListOptions, apiObjs = [], world = w\<rparr> = Some (None, sk) \<and>
    find (\<lambda>x. vk (Some x) \<noteq> None) (apiObjs sk) = Some bk \<longrightarrow>
      vk (Some bk) \<noteq> None \<and>
      ListKeys vk g owner repo w = Some ((None, vk (Some bk)), world sk)) \<and>
   (ListOrgs vo g w = Some ((Some orgs, erro), wo) \<longrightarrow> (\<forall>x\<in>set orgs. vo (Some x) = None)) \<and>
   (ListOrgRepos vr g orgName w = Some ((Some repos, errr), wr) \<longrightarrow>
      (\<forall>x\<in>set repos. vr (Some x) = None)) \<and>
   (ListUserRepos vr g username w = Some ((Some repos', erru), wu) \<longrightarrow>
      (\<forall>x\<in>set repos'. vr (Some x) = None)) \<and>
   (ListKeys vk g owner repo w = Some ((Some keys, errk), wk) \<longrightarrow>
      (\<forall>x\<in>set keys. vk (Some x) = None))"
proof -
  note invalid = ListOrgs_invalid ListOrgRepos_invalid ListUserRepos_invalid ListKeys_invalid
  note valid = ListOrgs_returned_valid ListOrgRepos_returned_valid
    ListUserRepos_returned_valid ListKeys_returned_valid
  show ?thesis
    by (intro conjI impI; (elim conjE)?) (rule invalid [THEN conjunct1] invalid [THEN conjunct2] valid; assumption)+
qed


theorem list_validation_atomic_witness:
  "ListOrgs requireOrgName
     \<lparr>impl_c = listingClient [org 1 ''a'', org 2 [], org 3 ''c'']
                 [repository 1 ''r'', repository 2 []]
                 [deployKey 1 ''t'' [], deployKey 2 ''t'' ''ssh-rsa AAAA''],
      destructiveActions = False\<rparr> 0 =
     Some ((None, Some (ErrorString ''organization name is empty'')), 2) \<and>
   ListOrgRepos requireRepoName
     \<lparr>impl_c = listingClient [org 1 ''a'', org 2 [], org 3 ''c'']
                 [repository 1 ''r'', repository 2 []]
                 [deployKey 1 ''t'' [], deployKey 2 ''t'' ''ssh-rsa AAAA''],
      destructiveActions = False\<rparr> ''acme'' 0 =
     Some ((None, Some (ErrorString ''repository name is empty'')), 2) \<and>
   ListUserRepos requireRepoName
     \<lparr>impl_c = listingClient [org 1 ''a'', org 2 [], org 3 ''c'']
                 [repository 1 ''r'', repository 2 []]
                 [deployKey 1 ''t'' [], deployKey 2 ''t'' ''ssh-rsa AAAA''],
      destructiveActions = False\<rparr> ''me'' 0 =
     Some ((None, Some (ErrorString ''repository name is empty'')), 2) \<and>
   ListKeys requireKeyMaterial
     \<lparr>impl_c = listingClient [org 1 ''a'', org 2 [], org 3 ''c'']
                 [repository 1 ''r'', repository 2 []]
                 [deployKey 1 ''t'' [], deployKey 2 ''t'' ''ssh-rsa AAAA''],
      destructiveActions = False\<rparr> ''acme'' ''r'' 0 =
     Some ((None, Some (ErrorString ''deploy key is empty'')), 2) \<and>
   ListOrgs requireOrgName
     \<lparr>impl_c = listingClient [org 1 ''a''] [repository 1 ''r''] [deployKey 2 ''t'' ''ssh-rsa AAAA''],
      destructiveActions = False\<rparr> 0 = Some ((Some [org 1 ''a''], None), 2) \<and>
   requireOrgName (Some (org 1 ''a'')) = None \<and>
   ListOrgRepos requireRepoName
     \<lparr>impl_c = listingClient [org 1 ''a''] [repository 1 ''r''] [deployKey 2 ''t'' ''ssh-rsa AAAA''],
      destructiveActions = False\<rparr> ''acme'' 0 = Some ((Some [repository 1 ''r''], None), 2) \<and>
   ListUserRepos requireRepoName
     \<lparr>impl_c = listingClient [org 1 ''a''] [repository 1 ''r''] [deployKey 2 ''t'' ''ssh-rsa AAAA''],
      destructiveActions = False\<rparr> ''me'' 0 = Some ((Some [repository 1 ''r''], None), 2) \<and>
   requireRepoName (Some (repository 1 ''r'')) = None \<and>
   ListKeys requireKeyMaterial
     \<lparr>impl_c = listingClient [org 1 ''a''] [repository 1 ''r''] [deployKey 2 ''t'' ''ssh-rsa AAAA''],
      destructiveActions = False\<rparr> ''acme'' ''r'' 0 =
     Some ((Some [deployKey 2 ''t'' ''ssh-rsa AAAA''], None), 2) \<and>
   requireKeyMaterial (Some (deployKey 2 ''t'' ''ssh-rsa AAAA'')) = None"
proof -
  let ?bad = "\<lparr>impl_c = listingClient [org 1 ''a'', org 2 [], org 3 ''c'']
                 [repository 1 ''r'', repository 2 []]
                 [deployKey 1 ''t'' [], deployKey 2 ''t'' ''ssh-rsa AAAA''],
      destructiveActions = False\<rparr>"
  let ?good = "\<lparr>impl_c = listingClient [org 1 ''a''] [repository 1 ''r'']
                  [deployKey 2 ''t'' ''ssh-rsa AAAA''],
      destructiveActions = False\<rparr>"
  let ?so = "\<lparr>opts = \<lparr>Page = 2, PageSize = 0\<rparr>,
               apiObjs = [org 1 ''a'', org 2 [], org 3 ''c''], world = 2::nat\<rparr>"
  let ?sr = "\<lparr>opts = \<lparr>Page = 2, PageSize = 0\<rparr>,
               apiObjs = [repository 1 ''r'', repository 2 []], world = 2::nat\<rparr>"
  let ?sk = "\<lparr>opts = \<lparr>Page = 2, PageSize = 0\<rparr>,
               apiObjs = [deployKey 1 ''t'' [], deployKey 2 ''t'' ''ssh-rsa AAAA''],
               world = 2::nat\<rparr>"
  note bad = list_validation_atomic [where g = ?bad and w = 0 and orgName = "''acme''"
        and username = "''me''" and owner = "''acme''" and repo = "''r''"
        and vo = requireOrgName and vr = requireRepoName and vk = requireKeyMaterial
        and so = ?so and bo = "org 2 []" and sr = ?sr and br = "repository 2 []"
        and su = ?sr and bu = "repository 2 []" and sk = ?sk and bk = "deployKey 1 ''t'' []"]
  note good = list_validation_atomic [where g = ?good and w = 0 and orgName = "''acme''"
        and username = "''me''" and owner = "''acme''" and repo = "''r''"
        and vo = requireOrgName and vr = requireRepoName and vk = requireKeyMaterial
        and orgs = "[org 1 ''a'']" and erro = None and wo = 2
        and repos = "[repository 1 ''r'']" and errr = None and wr = 2
        and repos' = "[repository 1 ''r'']" and erru = None and wu = 2
        and keys = "[deployKey 2 ''t'' ''ssh-rsa AAAA'']" and errk = None and wk = 2]
  have vals:
    "requireOrgName (Some (org 1 ''a'')) = None"
    "requireOrgName (Some (org 2 [])) = Some (ErrorString ''organization name is empty'')"
    "requireRepoName (Some (repository 1 ''r'')) = None"
    "requireRepoName (Some (repository 2 [])) = Some (ErrorString ''repository name is empty'')"
    "requireKeyMaterial (Some (deployKey 1 ''t'' [])) = Some (ErrorString ''deploy key is empty'')"
    "requireKeyMaterial (Some (deployKey 2 ''t'' ''ssh-rsa AAAA'')) = None"
    by (simp_all add: requireOrgName_def requireRepoName_def requireKeyMaterial_def org_def
          repository_def deployKey_def)
  have b1: "ListOrgs requireOrgName ?bad 0 =
      Some ((None, Some (ErrorString ''organization name is empty'')), 2)"
    using bad [THEN conjunct1] by (simp add: listingClient_pages vals)
  have b2: "ListOrgRepos requireRepoName ?bad ''acme'' 0 =
      Some ((None, Some (ErrorString ''repository name is empty'')), 2)"
    using bad [THEN conjunct2, THEN conjunct1] by (simp add: listingClient_pages vals)
  have b3: "ListUserRepos requireRepoName ?bad ''me'' 0 =
      Some ((None, Some (ErrorString ''repository name is empty'')), 2)"
    using bad [THEN conjunct2, THEN conjunct2, THEN conjunct1]
    by (simp add: listingClient_pages vals)
  have b4: "ListKeys requireKeyMaterial ?bad ''acme'' ''r'' 0 =
      Some ((None, Some (ErrorString ''deploy key is empty'')), 2)"
    using bad [THEN conjunct2, THEN conjunct2, THEN conjunct2, THEN conjunct1]
    by (simp add: listingClient_pages vals)
  have g1: "ListOrgs requireOrgName ?good 0 = Some ((Some [org 1 ''a''], None), 2)"
    by (simp add: ListOrgs_def listingClient_pages vals)
  have g2: "ListOrgRepos requireRepoName ?good ''acme'' 0 =
      Some ((Some [repository 1 ''r''], None), 2)"
    by (simp add: ListOrgRepos_def validateRepositoryObjects_def listingClient_pages vals)
  have g3: "ListUserRepos requireRepoName ?good ''me'' 0 =
      Some ((Some [repository 1 ''r''], None), 2)"
    by (simp add: ListUserRepos_def validateRepositoryObjects_def listingClient_pages vals)
  have g4: "ListKeys requireKeyMaterial ?good ''acme'' ''r'' 0 =
      Some ((Some [deployKey 2 ''t'' ''ssh-rsa AAAA''], None), 2)"
    by (simp add: ListKeys_def listingClient_pages vals)
  note rest = good [THEN conjunct2, THEN conjunct2, THEN conjunct2, THEN conjunct2]
  have v1: "requireOrgName (Some (org 1 ''a'')) = None"
    using rest [THEN conjunct1] g1 by simp
  have v2: "requireRepoName (Some (repository 1 ''r'')) = None"
    using rest [THEN conjunct2, THEN conjunct1] g2 by simp
  have v4: "requireKeyMaterial (Some (deployKey 2 ''t'' ''ssh-rsa AAAA'')) = None"
    using rest [THEN conjunct2, THEN conjunct2, THEN conjunct2] g4 by simp
  show ?thesis
    by (intro conjI) (rule b1 b2 b3 b4 g1 g2 g3 g4 v1 v2 v4)+
qed

text \<open>
  C5. For every owner and repository name, if the flag \<open>destructiveActions\<close> is false
  then \<open>DeleteRepo\<close> returns an error that wraps \<open>ErrDestructiveCallDisallowed\<close> and
  leaves the world as it was, whatever the transport is: it makes no transport call.
  The example has a transport that counts its calls.
\<close>

theorem DeleteRepo_disallowed:
  "\<not> destructiveActions g \<Longrightarrow>
   DeleteRepo g owner repo w =
     (Some (Errorf ''cannot delete repository: '' ErrDestructiveCallDisallowed), w) \<and>
   errors_Is (Errorf ''cannot delete repository: '' ErrDestructiveCallDisallowed)
     ErrDestructiveCallDisallowed"
  by (simp add: DeleteRepo_def)

theorem DeleteRepo_disallowed_witness:
  "\<not> destructiveActions \<lparr>impl_c = quietClient, destructiveActions = False\<rparr> \<and>
   DeleteRepo \<lparr>impl_c = quietClient, destructiveActions = False\<rparr> ''owner'' ''repo'' 0 =
     (Some (Errorf ''cannot delete repository: '' ErrDestructiveCallDisallowed), 0) \<and>
   errors_Is (Errorf ''cannot delete repository: '' ErrDestructiveCallDisallowed)
     ErrDestructiveCallDisallowed"
  using DeleteRepo_disallowed
    [of "\<lparr>impl_c = quietClient, destructiveActions = False\<rparr>" "''owner''" "''repo''" 0]
  by simp

text \<open>With the flag set, the same call reaches the transport: the counter moves.\<close>

lemma DeleteRepo_allowed_calls:
  "DeleteRepo \<lparr>impl_c = quietClient, destructiveActions = True\<rparr> ''owner'' ''repo'' 0 = (None, 1)"
  by (simp add: DeleteRepo_def quietClient_def handleHTTPError_def)








text \<open>
  C8. The claim: every accessor routes a non-nil error of a remote call through the
  error translator, so a 404 surfaces as \<open>ErrNotFound\<close>. The code at failing inputs, a
  transport answering 404: the translator would return \<open>ErrNotFound\<close>, but
  \<open>ListCommitsPage\<close> and \<open>PullRequestClient.List\<close> return the SDK's error as it is, and
  \<open>ListOrgTeamMembers\<close> returns it wrapped by \<open>fmt.Errorf\<close>.
\<close>

theorem accessors_bypass_translator:
  "handleHTTPError (Some notFound) (Some (ErrorString ''404 Not Found'')) = Some ErrNotFound \<and>
   ListCommitsPage \<lparr>impl_c = notFoundClient, destructiveActions = False\<rparr>
     ''owner'' ''repo'' ''main'' 10 1 0 = ((None, Some (ErrorString ''404 Not Found'')), 1) \<and>
   ListOrgTeamMembers \<lparr>impl_c = notFoundClient, destructiveActions = False\<rparr> ''org'' ''A'' 0 =
     Some ((None, Some (Errorf ''failed to list team A members: ''
                          (ErrorString ''404 Not Found''))), 3) \<and>
   PullRequestClient_List (\<lambda>pr. pr)
     \<lparr>prc_c = \<lparr>impl_c = notFoundClient, destructiveActions = False\<rparr>,
      ref_Identity = ''owner'', ref_Repository = ''repo''\<rparr> 0 =
     ((None, Some (ErrorString ''404 Not Found'')), 1)"
  by (simp add: handleHTTPError_def notFound_def ListCommitsPage_def ListOrgTeamMembers_def
        elems_def ListOrgTeams_notFoundClient PullRequestClient_List_def Client_def
        notFoundClient_calls teamA_def teamB_def)

text \<open>
  C9. The claim: every call of \<open>GetRepoTeams\<close> terminates with the team list or an
  error. The code: the method calls itself with its own arguments, so no call
  returns, for any client, organization, repository and world.
\<close>

theorem GetRepoTeams_never_returns: "GetRepoTeams g orgName repo w = None"
proof (cases "GetRepoTeams g orgName repo w")
  case None
  then show ?thesis .
next
  case (Some y)
  have False
    by (rule GetRepoTeams.raw_induct [where P = "\<lambda>_ _ _ _ _. False", OF _ Some])
       (auto simp: bind_eq_Some_conv)
  then show ?thesis ..
qed

text \<open>
  C10. Two calls of \<open>PullRequestClient.Create\<close> with the same title send the same
  request and have the same outcome, whatever their branch, base branch and
  description are: the options of the request carry the title only.
\<close>

theorem Create_only_title:
  "Create_request pc title branch baseBranch description =
     Create_request pc title branch' baseBranch' description' \<and>
   PullRequestClient_Create newPullRequest pc title branch baseBranch description w =
     PullRequestClient_Create newPullRequest pc title branch' baseBranch' description' w"
  by (simp add: PullRequestClient_Create_def Create_request_def)

end
